theory Spec2Isabelle
  imports Main "HOL-Library.Word" "HOL-Library.AList"
begin

section \<open>Data model of the story-session module\<close>

text \<open>
  The module under verification is the session manager of the story game, in its two
  versions: \<^verbatim>\<open>src/lib/story-session.ts\<close> (documents without a \<^verbatim>\<open>playerIds\<close> field)
  and \<^verbatim>\<open>src/unnamed/part_000\<close> (the same module with \<^verbatim>\<open>playerIds\<close>, \<^verbatim>\<open>findSession\<close>
  and \<^verbatim>\<open>getSessionsForUser\<close>).

  A JavaScript string is a sequence of UTF-16 code units, so it is a list of 16-bit words.
  A JavaScript \<^verbatim>\<open>number\<close> used as an index is modelled as an \<^typ>\<open>int\<close>: the model covers
  the integer values of \<^verbatim>\<open>activePlayerIndex\<close>, negative ones included, and leaves out
  fractions, NaN and the infinities, and does not tell \<open>-0\<close> from \<open>0\<close>. Comparison,
  \<^verbatim>\<open>Math.min\<close> and \<^verbatim>\<open>%\<close> are exact on doubles that hold integers; addition is exact as
  long as the operands and the sum are below \<open>2 ^ 53\<close> in magnitude, and rounds beyond
  (\<^verbatim>\<open>-9007199254740994 + 1\<close> is \<^verbatim>\<open>-9007199254740992\<close>). The model adds exactly, so what is
  proved of the one addition of the module, \<^verbatim>\<open>activeIndex + 1\<close> in \<^verbatim>\<open>addWordToSession\<close>, is
  stated for indices below \<open>2 ^ 53\<close> in magnitude. The server timestamp is a parameter of
  every write. The operations run one after the other: a
  transaction is its body applied to the snapshot it reads, and no two writes interleave.
\<close>

type_synonym code_unit = "16 word"
type_synonym jsstring = "code_unit list"
type_synonym timestamp = nat

text \<open>\<^verbatim>\<open>type Player = { id: string; name: string }\<close>; the field \<^verbatim>\<open>id\<close> is called
  \<open>id_p\<close> here, since \<open>id\<close> is the identity function of HOL.\<close>

record Player =
  id_p :: jsstring
  name :: jsstring

text \<open>
  A stored document: every field may be missing (the code reads each one through
  \<^verbatim>\<open>?? default\<close>), which is \<open>None\<close>. The same record is the payload of a write, where
  \<open>None\<close> means that the payload does not mention the field.
\<close>

record StorySessionDoc =
  players :: "Player list option"
  storyWords :: "jsstring list option"
  activePlayerIndex :: "int option"
  playerIds :: "jsstring list option"
  updatedAt :: "timestamp option"

text \<open>\<^verbatim>\<open>Partial<StorySessionState>\<close>, the seed of \<^verbatim>\<open>ensureSessionExists\<close>.\<close>

record Seed =
  seed_players :: "Player list option"
  seed_storyWords :: "jsstring list option"
  seed_activePlayerIndex :: "int option"
  seed_playerIds :: "jsstring list option"

text \<open>\<^verbatim>\<open>StorySessionState\<close>, as handed to the \<^verbatim>\<open>onChange\<close> callback of a subscription.\<close>

record StorySessionState =
  st_players :: "Player list"
  st_storyWords :: "jsstring list"
  st_activePlayerIndex :: int
  st_playerIds :: "jsstring list option"

text \<open>The object returned by \<^verbatim>\<open>findSession\<close> and \<^verbatim>\<open>formatSessionDoc\<close>.\<close>

record SessionView =
  v_id :: jsstring
  v_players :: "Player list"
  v_storyWords :: "jsstring list"
  v_activePlayerIndex :: int
  v_updatedAt :: "timestamp option"

text \<open>The collection \<^verbatim>\<open>sessions\<close>: documents keyed by session id, in the order in which
  the store enumerates them.\<close>

type_synonym store = "(jsstring \<times> StorySessionDoc) list"

section \<open>JavaScript primitives\<close>

text \<open>ASCII literals as JavaScript strings.\<close>

definition js :: "string \<Rightarrow> jsstring" where
  "js s = map (\<lambda>c. of_nat (of_char c)) s"

text \<open>The characters removed by \<^verbatim>\<open>String.prototype.trim\<close>: WhiteSpace and LineTerminator
  of ECMAScript.\<close>

definition isWhiteSpace :: "code_unit \<Rightarrow> bool" where
  "isWhiteSpace c \<longleftrightarrow>
     c = 0x0009 \<or> c = 0x000A \<or> c = 0x000B \<or> c = 0x000C \<or> c = 0x000D \<or> c = 0x0020 \<or>
     c = 0x00A0 \<or> c = 0x1680 \<or> (0x2000 \<le> c \<and> c \<le> 0x200A) \<or> c = 0x2028 \<or>
     c = 0x2029 \<or> c = 0x202F \<or> c = 0x205F \<or> c = 0x3000 \<or> c = 0xFEFF"

definition trim :: "jsstring \<Rightarrow> jsstring" where
  "trim s = rev (dropWhile isWhiteSpace (rev (dropWhile isWhiteSpace s)))"

text \<open>\<^verbatim>\<open>a % b\<close> on integers: the remainder takes the sign of the dividend.\<close>

definition js_rem :: "int \<Rightarrow> int \<Rightarrow> int" where
  "js_rem a b = sgn a * (\<bar>a\<bar> mod \<bar>b\<bar>)"

text \<open>\<^verbatim>\<open>Array.prototype.findIndex\<close>: the first index whose element satisfies the
  predicate, or \<open>-1\<close>.\<close>

fun findIndex :: "('a \<Rightarrow> bool) \<Rightarrow> 'a list \<Rightarrow> int" where
  "findIndex P [] = - 1"
| "findIndex P (x # xs) =
     (if P x then 0
      else (let i = findIndex P xs in if i < 0 then - 1 else i + 1))"

text \<open>\<^verbatim>\<open>Array.from(new Set(xs))\<close>: a Set keeps the first occurrence of each value, in
  insertion order.\<close>

definition newSet :: "'a list \<Rightarrow> 'a list" where
  "newSet xs = fold (\<lambda>x acc. if x \<in> set acc then acc else acc @ [x]) xs []"

section \<open>The module\<close>

text \<open>\<^verbatim>\<open>const emptySession: StorySessionState = { players: [], storyWords: [], activePlayerIndex: 0 }\<close>\<close>

definition emptySession :: StorySessionState where
  "emptySession =
     \<lparr>st_players = [], st_storyWords = [], st_activePlayerIndex = 0, st_playerIds = None\<rparr>"

text \<open>\<^verbatim>\<open>StorySessionDoc = StorySessionState & { updatedAt?: unknown }\<close>: a state read as a
  document.\<close>

definition docOfState :: "StorySessionState \<Rightarrow> StorySessionDoc" where
  "docOfState s =
     \<lparr>players = Some (st_players s), storyWords = Some (st_storyWords s),
      activePlayerIndex = Some (st_activePlayerIndex s), playerIds = st_playerIds s,
      updatedAt = None\<rparr>"

text \<open>\<^verbatim>\<open>x ?? d\<close>\<close>

definition orElse :: "'a option \<Rightarrow> 'a \<Rightarrow> 'a" where
  "orElse x d = (case x of Some v \<Rightarrow> v | None \<Rightarrow> d)"

text \<open>\<^verbatim>\<open>normalizePlayers\<close> (the same text in both versions of the module). The result
  object \<^verbatim>\<open>{ players, activeIndex }\<close> is a pair.\<close>

definition normalizePlayers :: "Player list \<Rightarrow> int \<Rightarrow> Player list \<times> int" where
  "normalizePlayers ps activeIndex =
     (let cleaned =
            map (\<lambda>player. player\<lparr>name := trim (name player)\<rparr>)
              (filter (\<lambda>player. id_p player \<noteq> [] \<and> trim (name player) \<noteq> []) ps);
          clampedIndex =
            (if length cleaned \<noteq> 0 then min activeIndex (int (length cleaned) - 1) else 0)
      in (cleaned, clampedIndex))"

text \<open>\<^verbatim>\<open>mergePlayerIds\<close>\<close>

definition mergePlayerIds :: "Player list \<Rightarrow> jsstring list" where
  "mergePlayerIds ps = newSet (filter (\<lambda>s. s \<noteq> []) (map id_p ps))"

subsection \<open>The document store\<close>

text \<open>\<^verbatim>\<open>getDoc(ref)\<close> / \<^verbatim>\<open>transaction.get(ref)\<close>: \<open>None\<close> is a snapshot that does not
  exist.\<close>

definition getDoc :: "store \<Rightarrow> jsstring \<Rightarrow> StorySessionDoc option" where
  "getDoc st sessionId = map_of st sessionId"

text \<open>\<^verbatim>\<open>setDoc(ref, d)\<close>: the document is replaced as a whole.\<close>

definition setDoc :: "store \<Rightarrow> jsstring \<Rightarrow> StorySessionDoc \<Rightarrow> store" where
  "setDoc st sessionId d = AList.update sessionId d st"

text \<open>A write with \<^verbatim>\<open>{ merge: true }\<close>: the fields of the payload replace the stored ones
  (arrays are replaced as a whole), the other stored fields stay.\<close>

definition mergeFields :: "StorySessionDoc option \<Rightarrow> StorySessionDoc \<Rightarrow> StorySessionDoc" where
  "mergeFields old payload =
     (case old of
        None \<Rightarrow> payload
      | Some d \<Rightarrow>
          \<lparr>players = (case players payload of Some v \<Rightarrow> Some v | None \<Rightarrow> players d),
           storyWords = (case storyWords payload of Some v \<Rightarrow> Some v | None \<Rightarrow> storyWords d),
           activePlayerIndex =
             (case activePlayerIndex payload of Some v \<Rightarrow> Some v | None \<Rightarrow> activePlayerIndex d),
           playerIds = (case playerIds payload of Some v \<Rightarrow> Some v | None \<Rightarrow> playerIds d),
           updatedAt = (case updatedAt payload of Some v \<Rightarrow> Some v | None \<Rightarrow> updatedAt d)\<rparr>)"

definition setDocMerge :: "store \<Rightarrow> jsstring \<Rightarrow> StorySessionDoc \<Rightarrow> store" where
  "setDocMerge st sessionId payload =
     AList.update sessionId (mergeFields (getDoc st sessionId) payload) st"

subsection \<open>\<^verbatim>\<open>src/unnamed/part_000\<close>: the module with \<^verbatim>\<open>playerIds\<close>\<close>

text \<open>\<^verbatim>\<open>{ ...emptySession, ...seed }\<close>\<close>

definition spreadSeed :: "StorySessionState \<Rightarrow> Seed option \<Rightarrow> StorySessionState" where
  "spreadSeed base seed =
     (case seed of
        None \<Rightarrow> base
      | Some s \<Rightarrow>
          \<lparr>st_players = orElse (seed_players s) (st_players base),
           st_storyWords = orElse (seed_storyWords s) (st_storyWords base),
           st_activePlayerIndex = orElse (seed_activePlayerIndex s) (st_activePlayerIndex base),
           st_playerIds =
             (case seed_playerIds s of Some v \<Rightarrow> Some v | None \<Rightarrow> st_playerIds base)\<rparr>)"

definition ensureSessionExists :: "store \<Rightarrow> jsstring \<Rightarrow> Seed option \<Rightarrow> timestamp \<Rightarrow> store" where
  "ensureSessionExists st sessionId seed now =
     (case getDoc st sessionId of
        Some snapshot \<Rightarrow> st
      | None \<Rightarrow>
          (let defaults = spreadSeed emptySession seed
           in setDoc st sessionId
                ((docOfState defaults)
                   \<lparr>playerIds := Some (mergePlayerIds (st_players defaults)),
                    updatedAt := Some now\<rparr>)))"

text \<open>The snapshot callback of \<^verbatim>\<open>subscribeToSession\<close>: the state handed to \<^verbatim>\<open>onChange\<close>,
  or \<open>None\<close> when the callback returns without calling it.\<close>

definition subscribeToSession :: "StorySessionDoc option \<Rightarrow> StorySessionState option" where
  "subscribeToSession snapshot =
     (case snapshot of
        None \<Rightarrow> None
      | Some data \<Rightarrow>
          (let (ps, activeIndex) =
                 normalizePlayers (orElse (players data) []) (orElse (activePlayerIndex data) 0)
           in Some \<lparr>st_players = ps, st_storyWords = orElse (storyWords data) [],
                    st_activePlayerIndex = activeIndex,
                    st_playerIds = Some (mergePlayerIds ps)\<rparr>))"

text \<open>The transaction body of \<^verbatim>\<open>addPlayerToSession\<close>: from the snapshot read to the
  payload handed to \<^verbatim>\<open>transaction.set\<close>.\<close>

definition addPlayerToSession_tx ::
    "StorySessionDoc option \<Rightarrow> Player \<Rightarrow> timestamp \<Rightarrow> StorySessionDoc" where
  "addPlayerToSession_tx snapshot player now =
     (let data = orElse snapshot (docOfState emptySession);
          nextPlayers = orElse (players data) [];
          existingIndex = findIndex (\<lambda>p. id_p p = id_p player) nextPlayers;
          nextPlayers =
            (if existingIndex \<ge> 0 then nextPlayers[nat existingIndex := player]
             else nextPlayers @ [player]);
          (ps, activeIndex) = normalizePlayers nextPlayers (orElse (activePlayerIndex data) 0);
          ids = mergePlayerIds ps
      in data\<lparr>players := Some ps, playerIds := Some ids,
               activePlayerIndex := Some activeIndex, updatedAt := Some now\<rparr>)"

definition addPlayerToSession :: "store \<Rightarrow> jsstring \<Rightarrow> Player \<Rightarrow> timestamp \<Rightarrow> store" where
  "addPlayerToSession st sessionId player now =
     setDocMerge st sessionId (addPlayerToSession_tx (getDoc st sessionId) player now)"

text \<open>The transaction body of \<^verbatim>\<open>addWordToSession\<close>. The sum \<^verbatim>\<open>activeIndex + 1\<close> is the
  exact one: it is the sum the source computes when the normalized index is below \<open>2 ^ 53\<close>
  in magnitude.\<close>

definition addWordToSession_tx ::
    "StorySessionDoc option \<Rightarrow> jsstring \<Rightarrow> timestamp \<Rightarrow> StorySessionDoc" where
  "addWordToSession_tx snapshot word now =
     (let data = orElse snapshot (docOfState emptySession);
          (ps, activeIndex) =
            normalizePlayers (orElse (players data) []) (orElse (activePlayerIndex data) 0);
          nextWords = orElse (storyWords data) [] @ [trim word];
          nextActiveIndex =
            (if length ps \<noteq> 0 then js_rem (activeIndex + 1) (int (length ps)) else 0)
      in data\<lparr>storyWords := Some nextWords, players := Some ps,
               playerIds := Some (mergePlayerIds ps),
               activePlayerIndex := Some nextActiveIndex, updatedAt := Some now\<rparr>)"

definition addWordToSession :: "store \<Rightarrow> jsstring \<Rightarrow> jsstring \<Rightarrow> timestamp \<Rightarrow> store" where
  "addWordToSession st sessionId word now =
     setDocMerge st sessionId (addWordToSession_tx (getDoc st sessionId) word now)"

definition resetSessionStory :: "store \<Rightarrow> jsstring \<Rightarrow> timestamp \<Rightarrow> store" where
  "resetSessionStory st sessionId now =
     setDocMerge st sessionId
       \<lparr>players = None, storyWords = Some [], activePlayerIndex = Some 0,
        playerIds = Some (mergePlayerIds []), updatedAt = Some now\<rparr>"

definition formatSessionDoc :: "jsstring \<times> StorySessionDoc \<Rightarrow> SessionView" where
  "formatSessionDoc docSnapshot =
     (let data = snd docSnapshot;
          (ps, activeIndex) =
            normalizePlayers (orElse (players data) []) (orElse (activePlayerIndex data) 0)
      in \<lparr>v_id = fst docSnapshot, v_players = ps, v_storyWords = orElse (storyWords data) [],
          v_activePlayerIndex = activeIndex, v_updatedAt = updatedAt data\<rparr>)"

definition findSession :: "store \<Rightarrow> jsstring \<Rightarrow> SessionView option" where
  "findSession st sessionId =
     (case getDoc st sessionId of
        None \<Rightarrow> None
      | Some data \<Rightarrow>
          (let (ps, activeIndex) =
                 normalizePlayers (orElse (players data) []) (orElse (activePlayerIndex data) 0)
           in Some \<lparr>v_id = sessionId, v_players = ps, v_storyWords = orElse (storyWords data) [],
                    v_activePlayerIndex = activeIndex, v_updatedAt = updatedAt data\<rparr>))"

text \<open>\<^verbatim>\<open>query(sessionsRef, where('playerIds', 'array-contains', userId))\<close>: the documents
  whose \<^verbatim>\<open>playerIds\<close> field is an array with an element equal to \<open>userId\<close>.\<close>

definition queryPlayerIds :: "store \<Rightarrow> jsstring \<Rightarrow> store" where
  "queryPlayerIds st userId =
     filter (\<lambda>d. case playerIds (snd d) of None \<Rightarrow> False | Some ids \<Rightarrow> userId \<in> set ids) st"

definition getSessionsForUser :: "store \<Rightarrow> jsstring \<Rightarrow> SessionView list" where
  "getSessionsForUser st userId =
     (let sessions = map formatSessionDoc (queryPlayerIds st userId)
      in if length sessions = 0
         then filter (\<lambda>session. list_ex (\<lambda>player. id_p player = userId) (v_players session))
                (map formatSessionDoc st)
         else sessions)"

subsection \<open>\<^verbatim>\<open>src/lib/story-session.ts\<close>: the module without \<^verbatim>\<open>playerIds\<close>\<close>

text \<open>\<^verbatim>\<open>normalizePlayers\<close>, \<^verbatim>\<open>emptySession\<close> and the document type are the ones above; this
  version never writes \<^verbatim>\<open>playerIds\<close>. The sum \<^verbatim>\<open>activeIndex + 1\<close> is the exact one here too.\<close>

definition addPlayerToSession_tx_legacy ::
    "StorySessionDoc option \<Rightarrow> Player \<Rightarrow> timestamp \<Rightarrow> StorySessionDoc" where
  "addPlayerToSession_tx_legacy snapshot player now =
     (let data = orElse snapshot (docOfState emptySession);
          nextPlayers = orElse (players data) [];
          existingIndex = findIndex (\<lambda>p. id_p p = id_p player) nextPlayers;
          nextPlayers =
            (if existingIndex \<ge> 0 then nextPlayers[nat existingIndex := player]
             else nextPlayers @ [player]);
          (ps, activeIndex) = normalizePlayers nextPlayers (orElse (activePlayerIndex data) 0)
      in data\<lparr>players := Some ps, activePlayerIndex := Some activeIndex,
               updatedAt := Some now\<rparr>)"

definition addPlayerToSession_legacy ::
    "store \<Rightarrow> jsstring \<Rightarrow> Player \<Rightarrow> timestamp \<Rightarrow> store" where
  "addPlayerToSession_legacy st sessionId player now =
     setDocMerge st sessionId (addPlayerToSession_tx_legacy (getDoc st sessionId) player now)"

definition addWordToSession_tx_legacy ::
    "StorySessionDoc option \<Rightarrow> jsstring \<Rightarrow> timestamp \<Rightarrow> StorySessionDoc" where
  "addWordToSession_tx_legacy snapshot word now =
     (let data = orElse snapshot (docOfState emptySession);
          (ps, activeIndex) =
            normalizePlayers (orElse (players data) []) (orElse (activePlayerIndex data) 0);
          nextWords = orElse (storyWords data) [] @ [trim word];
          nextActiveIndex =
            (if length ps \<noteq> 0 then js_rem (activeIndex + 1) (int (length ps)) else 0)
      in data\<lparr>storyWords := Some nextWords, players := Some ps,
               activePlayerIndex := Some nextActiveIndex, updatedAt := Some now\<rparr>)"

definition addWordToSession_legacy ::
    "store \<Rightarrow> jsstring \<Rightarrow> jsstring \<Rightarrow> timestamp \<Rightarrow> store" where
  "addWordToSession_legacy st sessionId word now =
     setDocMerge st sessionId (addWordToSession_tx_legacy (getDoc st sessionId) word now)"

subsection \<open>Sample data\<close>

definition amy :: Player where
  "amy = \<lparr>id_p = js ''u1'', name = js '' Amy ''\<rparr>"

definition bob :: Player where
  "bob = \<lparr>id_p = js ''u2'', name = js ''Bob''\<rparr>"

definition blank :: Player where
  "blank = \<lparr>id_p = js ''u3'', name = js ''  ''\<rparr>"

definition anonymous :: Player where
  "anonymous = \<lparr>id_p = [], name = js ''Zed''\<rparr>"

definition twoPlayers :: StorySessionDoc where
  "twoPlayers =
     \<lparr>players = Some [amy, bob], storyWords = Some [js ''cat''], activePlayerIndex = Some 1,
      playerIds = Some [js ''u1'', js ''u2''], updatedAt = Some 3\<rparr>"

definition negativeIndex :: StorySessionDoc where
  "negativeIndex =
     \<lparr>players = Some [amy, bob], storyWords = Some [], activePlayerIndex = Some (- 4),
      playerIds = Some [js ''u1'', js ''u2''], updatedAt = Some 3\<rparr>"

definition noPlayers :: StorySessionDoc where
  "noPlayers =
     \<lparr>players = Some [blank], storyWords = None, activePlayerIndex = Some 2,
      playerIds = None, updatedAt = None\<rparr>"

definition fiveWords :: StorySessionDoc where
  "fiveWords =
     \<lparr>players = Some [amy, bob],
      storyWords = Some [js ''once'', js ''upon'', js ''a'', js ''time'', js ''there''],
      activePlayerIndex = Some 1, playerIds = Some [js ''u1'', js ''u2''],
      updatedAt = Some 3\<rparr>"

definition sampleStore :: store where
  "sampleStore = [(js ''s1'', fiveWords), (js ''s2'', noPlayers)]"

definition rawSeed :: Seed where
  "rawSeed =
     \<lparr>seed_players = Some [blank, anonymous, amy], seed_storyWords = None,
      seed_activePlayerIndex = None, seed_playerIds = Some [js ''zz'']\<rparr>"

definition rob :: Player where
  "rob = \<lparr>id_p = js ''u2'', name = js '' Rob ''\<rparr>"

definition onlyBob :: StorySessionDoc where
  "onlyBob =
     \<lparr>players = Some [bob], storyWords = None, activePlayerIndex = None,
      playerIds = None, updatedAt = None\<rparr>"

definition legacyDoc :: StorySessionDoc where
  "legacyDoc =
     \<lparr>players = Some [amy, bob], storyWords = Some [js ''cat''], activePlayerIndex = Some 0,
      playerIds = None, updatedAt = None\<rparr>"

definition legacyStore :: store where
  "legacyStore =
     [(js ''s1'', legacyDoc), (js ''s2'', noPlayers),
      (js ''s3'', onlyBob\<lparr>playerIds := Some [js ''u2'']\<rparr>)]"

section \<open>Facts about the primitives\<close>

lemma dropWhile_self: "xs = [] \<or> \<not> P (hd xs) \<Longrightarrow> dropWhile P xs = xs"
  by (cases xs) auto

lemma last_dropWhile_nonempty:
  "dropWhile P xs \<noteq> [] \<Longrightarrow> last (dropWhile P xs) = last xs"
  by (induction xs) auto

text \<open>Trimming a trimmed string changes nothing.\<close>

lemma trim_idem: "trim (trim s) = trim s"
proof -
  let ?P = isWhiteSpace
  define ys where "ys = dropWhile ?P s"
  define zs where "zs = dropWhile ?P (rev ys)"
  have t: "trim s = rev zs" by (simp add: trim_def ys_def zs_def)
  have zs_idem: "dropWhile ?P zs = zs" by (simp add: zs_def)
  have front: "dropWhile ?P (rev zs) = rev zs"
  proof (cases "zs = []")
    case True
    then show ?thesis by simp
  next
    case False
    then have ne: "rev ys \<noteq> []" by (auto simp: zs_def)
    have "last zs = last (rev ys)"
      using False unfolding zs_def by (rule last_dropWhile_nonempty)
    also have "\<dots> = hd ys" using ne by (simp add: last_rev)
    finally have "hd (rev zs) = hd ys" using False by (simp add: hd_rev)
    moreover have "\<not> ?P (hd ys)" using ne unfolding ys_def by (simp add: hd_dropWhile)
    ultimately show ?thesis using False by (intro dropWhile_self) simp
  qed
  show ?thesis
    unfolding trim_def[of "trim s"] unfolding t front by (simp add: zs_idem)
qed

text \<open>Distinct ASCII literals are distinct JavaScript strings.\<close>

lemma code_unit_of_char_inj:
  "(of_nat (of_char c) :: code_unit) = of_nat (of_char d) \<longleftrightarrow> c = d"
proof
  assume eq: "(of_nat (of_char c) :: code_unit) = of_nat (of_char d)"
  have small: "(of_char e :: nat) < 2 ^ 16" for e
  proof -
    have "(of_char e :: nat) mod 256 < 256" by simp
    then have "(of_char e :: nat) < 256" by (simp only: of_char_mod_256)
    also have "(256 :: nat) < 2 ^ 16" by simp
    finally show ?thesis .
  qed
  have "unat (of_nat (of_char e) :: code_unit) = of_char e" for e
    using small[of e] by (simp add: unat_of_nat)
  with eq have "(of_char c :: nat) = of_char d" by metis
  then show "c = d" by simp
qed simp

lemma js_eq_iff: "js s = js t \<longleftrightarrow> s = t"
  unfolding js_def by (simp add: inj_on_def code_unit_of_char_inj inj_map_eq_map)

lemma js_Nil_iff: "js s = [] \<longleftrightarrow> s = []" "[] = js s \<longleftrightarrow> s = []"
  by (auto simp: js_def)

lemma trim_samples:
  "trim (js '' Amy '') = js ''Amy''"
  "trim (js ''Amy'') = js ''Amy''"
  "trim (js ''Bob'') = js ''Bob''"
  "trim (js '' Rob '') = js ''Rob''"
  "trim (js ''Zed'') = js ''Zed''"
  "trim (js ''  '') = []"
  "trim (js ''cat'') = js ''cat''"
  "trim (js '' dog '') = js ''dog''"
  "trim (js ''dog'') = js ''dog''"
  by (simp_all add: js_def trim_def isWhiteSpace_def)

lemma fold_newSet_set:
  "set (fold (\<lambda>x acc. if x \<in> set acc then acc else acc @ [x]) xs a) = set a \<union> set xs"
  by (induction xs arbitrary: a) auto

lemma fold_newSet_distinct:
  "distinct a \<Longrightarrow> distinct (fold (\<lambda>x acc. if x \<in> set acc then acc else acc @ [x]) xs a)"
  by (induction xs arbitrary: a) auto

lemma set_newSet: "set (newSet xs) = set xs"
  by (simp add: newSet_def fold_newSet_set)

lemma distinct_newSet: "distinct (newSet xs)"
  by (simp add: newSet_def fold_newSet_distinct)

lemma findIndex_bounds: "- 1 \<le> findIndex P xs \<and> findIndex P xs < int (length xs)"
  by (induction xs) (auto simp: Let_def)

lemma findIndex_neg_iff: "findIndex P xs < 0 \<longleftrightarrow> (\<forall>x\<in>set xs. \<not> P x)"
  by (induction xs) (use findIndex_bounds in \<open>auto simp: Let_def\<close>)

lemma findIndex_hit:
  "0 \<le> findIndex P xs \<Longrightarrow>
     P (xs ! nat (findIndex P xs)) \<and> (\<forall>j < nat (findIndex P xs). \<not> P (xs ! j))"
proof (induction xs)
  case Nil
  then show ?case by simp
next
  case (Cons x xs)
  show ?case
  proof (cases "P x")
    case True
    then show ?thesis by simp
  next
    case False
    with Cons.prems have nn: "0 \<le> findIndex P xs"
      by (auto simp: Let_def split: if_splits)
    then have fi: "findIndex P (x # xs) = findIndex P xs + 1"
      using False by (simp add: Let_def)
    have n: "nat (findIndex P xs + 1) = Suc (nat (findIndex P xs))"
      using nn by simp
    from Cons.IH[OF nn] False show ?thesis
      unfolding fi n by (auto simp: less_Suc_eq_0_disj)
  qed
qed

section \<open>Normalization\<close>

lemma fst_normalizePlayers:
  "fst (normalizePlayers ps i) =
     map (\<lambda>player. player\<lparr>name := trim (name player)\<rparr>)
       (filter (\<lambda>player. id_p player \<noteq> [] \<and> trim (name player) \<noteq> []) ps)"
  by (simp add: normalizePlayers_def Let_def)

lemma snd_normalizePlayers:
  "snd (normalizePlayers ps i) =
     (if fst (normalizePlayers ps i) = [] then 0
      else min i (int (length (fst (normalizePlayers ps i))) - 1))"
  by (simp add: normalizePlayers_def Let_def)

lemma normalizePlayers_clean:
  assumes "p \<in> set (fst (normalizePlayers ps i))"
  shows "id_p p \<noteq> [] \<and> name p \<noteq> [] \<and> trim (name p) = name p"
  using assms by (auto simp: fst_normalizePlayers trim_idem)

lemma normalizePlayers_fixed:
  assumes "\<forall>p\<in>set ps. id_p p \<noteq> [] \<and> name p \<noteq> [] \<and> trim (name p) = name p"
  shows "fst (normalizePlayers ps i) = ps"
proof -
  have "filter (\<lambda>player. id_p player \<noteq> [] \<and> trim (name player) \<noteq> []) ps = ps"
    using assms by (simp add: filter_id_conv)
  moreover have "map (\<lambda>player. player\<lparr>name := trim (name player)\<rparr>) ps = ps"
    using assms by (simp add: map_idI)
  ultimately show ?thesis by (simp add: fst_normalizePlayers)
qed

text \<open>Every reader hands \<^verbatim>\<open>data.players ?? []\<close> and \<^verbatim>\<open>data.activePlayerIndex ?? 0\<close> to
  \<^verbatim>\<open>normalizePlayers\<close> and returns its result.\<close>

lemma subscribeToSession_view:
  "subscribeToSession (Some data) = Some s \<Longrightarrow>
     (st_players s, st_activePlayerIndex s) =
       normalizePlayers (orElse (players data) []) (orElse (activePlayerIndex data) 0)"
  by (auto simp: subscribeToSession_def Let_def split: prod.splits)

lemma formatSessionDoc_view:
  "(v_players (formatSessionDoc d), v_activePlayerIndex (formatSessionDoc d)) =
     normalizePlayers (orElse (players (snd d)) []) (orElse (activePlayerIndex (snd d)) 0)"
  by (simp add: formatSessionDoc_def Let_def split: prod.splits)

lemma findSession_view:
  "findSession st sid = Some v \<Longrightarrow>
     \<exists>data. getDoc st sid = Some data \<and>
       (v_players v, v_activePlayerIndex v) =
         normalizePlayers (orElse (players data) []) (orElse (activePlayerIndex data) 0)"
  by (auto simp: findSession_def Let_def split: option.splits prod.splits)

text \<open>
  Claim C1, as amended. \<^verbatim>\<open>normalizePlayers\<close> bounds the index from above only
  (\<^verbatim>\<open>Math.min(activeIndex, cleaned.length - 1)\<close>): for every players list and every
  index, the normalized index is \<open>0\<close> when no player is left, and otherwise it is below
  the number of players left; it is at least \<open>0\<close> when the index given is at least \<open>0\<close>.
  Every caller passes \<^verbatim>\<open>data.activePlayerIndex ?? 0\<close>, so a document without the field
  is the case of index \<open>0\<close>.
\<close>

theorem normalizePlayers_index_range:
  "(fst (normalizePlayers ps i) = [] \<longrightarrow> snd (normalizePlayers ps i) = 0) \<and>
   (fst (normalizePlayers ps i) \<noteq> [] \<longrightarrow>
      snd (normalizePlayers ps i) < int (length (fst (normalizePlayers ps i))) \<and>
      (0 \<le> i \<longrightarrow> 0 \<le> snd (normalizePlayers ps i)))"
  by (auto simp: snd_normalizePlayers)

text \<open>The theorem at two inputs: one player left and index \<open>7\<close>; no player left.\<close>

theorem normalizePlayers_index_range_witness:
  "fst (normalizePlayers [amy, blank] 7) \<noteq> [] \<and> (0::int) \<le> 7 \<and>
   0 \<le> snd (normalizePlayers [amy, blank] 7) \<and>
   snd (normalizePlayers [amy, blank] 7) < int (length (fst (normalizePlayers [amy, blank] 7))) \<and>
   fst (normalizePlayers [blank, anonymous] 7) = [] \<and>
   snd (normalizePlayers [blank, anonymous] 7) = 0"
  using normalizePlayers_index_range [of "[amy, blank]" 7]
    normalizePlayers_index_range [of "[blank, anonymous]" 7]
  by (simp add: fst_normalizePlayers amy_def blank_def anonymous_def js_eq_iff js_Nil_iff
      trim_samples)

text \<open>
  Claim C1 as the specification states it fails below \<open>0\<close>: with one valid player and
  the index \<open>-1\<close>, the normalized index is \<open>-1\<close>, which is no index into the list.
\<close>

theorem normalizePlayers_negative_index:
  "fst (normalizePlayers [bob] (- 1)) \<noteq> [] \<and>
   snd (normalizePlayers [bob] (- 1)) = - 1 \<and>
   \<not> (0 \<le> snd (normalizePlayers [bob] (- 1)))"
  by (simp add: normalizePlayers_def bob_def js_eq_iff js_Nil_iff trim_samples)

text \<open>
  Claim C9. Normalization is idempotent: for every players list and every index,
  normalizing the result of \<^verbatim>\<open>normalizePlayers\<close> again gives the same players and
  the same index.
\<close>

theorem normalizePlayers_idempotent:
  "normalizePlayers (fst (normalizePlayers ps i)) (snd (normalizePlayers ps i)) =
     normalizePlayers ps i"
proof -
  let ?c = "fst (normalizePlayers ps i)"
  have fx: "fst (normalizePlayers ?c j) = ?c" for j
    by (rule normalizePlayers_fixed) (use normalizePlayers_clean in blast)
  have "snd (normalizePlayers ?c (snd (normalizePlayers ps i))) = snd (normalizePlayers ps i)"
    unfolding snd_normalizePlayers[of ?c] fx snd_normalizePlayers[of ps] by simp
  with fx show ?thesis by (simp add: prod_eq_iff)
qed

text \<open>The theorem on a list with a name to trim and two players to drop.\<close>

theorem normalizePlayers_idempotent_witness:
  "normalizePlayers (fst (normalizePlayers [amy, blank, bob, anonymous] 5))
     (snd (normalizePlayers [amy, blank, bob, anonymous] 5)) =
   ([\<lparr>id_p = js ''u1'', name = js ''Amy''\<rparr>, bob], 1)"
  using normalizePlayers_idempotent [of "[amy, blank, bob, anonymous]" 5]
  by (simp add: normalizePlayers_def amy_def blank_def bob_def anonymous_def js_eq_iff js_Nil_iff
      trim_samples)

section \<open>The store and the transactions\<close>

lemma getDoc_setDocMerge:
  "getDoc (setDocMerge st sid payload) sid' =
     (if sid' = sid then Some (mergeFields (getDoc st sid) payload) else getDoc st sid')"
  by (simp add: getDoc_def setDocMerge_def update_conv')

lemma getDoc_setDoc:
  "getDoc (setDoc st sid d) sid' = (if sid' = sid then Some d else getDoc st sid')"
  by (simp add: getDoc_def setDoc_def update_conv')

lemma mergeFields_full:
  assumes "\<And>d. old = Some d \<Longrightarrow>
            (players payload = None \<longrightarrow> players d = None) \<and>
            (storyWords payload = None \<longrightarrow> storyWords d = None) \<and>
            (activePlayerIndex payload = None \<longrightarrow> activePlayerIndex d = None) \<and>
            (playerIds payload = None \<longrightarrow> playerIds d = None) \<and>
            (updatedAt payload = None \<longrightarrow> updatedAt d = None)"
  shows "mergeFields old payload = payload"
proof (cases old)
  case None
  then show ?thesis by (simp add: mergeFields_def)
next
  case (Some d)
  from assms[OF Some] show ?thesis
    unfolding mergeFields_def Some by (cases payload) (auto split: option.splits)
qed

lemma addPlayerToSession_tx_fields:
  "players (addPlayerToSession_tx snapshot p now) \<noteq> None"
  "playerIds (addPlayerToSession_tx snapshot p now) \<noteq> None"
  "activePlayerIndex (addPlayerToSession_tx snapshot p now) \<noteq> None"
  "updatedAt (addPlayerToSession_tx snapshot p now) = Some now"
  "storyWords (addPlayerToSession_tx snapshot p now) =
     storyWords (orElse snapshot (docOfState emptySession))"
  by (simp_all add: addPlayerToSession_tx_def Let_def split: prod.splits)

lemma mergeFields_addPlayer:
  "mergeFields snapshot (addPlayerToSession_tx snapshot p now) = addPlayerToSession_tx snapshot p now"
  by (rule mergeFields_full) (simp add: addPlayerToSession_tx_fields orElse_def)

lemma addWordToSession_tx_fields:
  "players (addWordToSession_tx snapshot w now) \<noteq> None"
  "playerIds (addWordToSession_tx snapshot w now) \<noteq> None"
  "activePlayerIndex (addWordToSession_tx snapshot w now) \<noteq> None"
  "updatedAt (addWordToSession_tx snapshot w now) \<noteq> None"
  "storyWords (addWordToSession_tx snapshot w now) \<noteq> None"
  by (simp_all add: addWordToSession_tx_def Let_def split: prod.splits)

lemma mergeFields_addWord:
  "mergeFields snapshot (addWordToSession_tx snapshot w now) = addWordToSession_tx snapshot w now"
  by (rule mergeFields_full) (simp add: addWordToSession_tx_fields)

lemma getDoc_addPlayerToSession:
  "getDoc (addPlayerToSession st sid p now) sid = Some (addPlayerToSession_tx (getDoc st sid) p now)"
  by (simp add: addPlayerToSession_def getDoc_setDocMerge mergeFields_addPlayer)

lemma getDoc_addWordToSession:
  "getDoc (addWordToSession st sid w now) sid = Some (addWordToSession_tx (getDoc st sid) w now)"
  by (simp add: addWordToSession_def getDoc_setDocMerge mergeFields_addWord)

lemma js_rem_nonneg: "0 \<le> a \<Longrightarrow> 0 < b \<Longrightarrow> js_rem a b = a mod b"
  by (cases "a = 0") (simp_all add: js_rem_def)

lemma set_mergePlayerIds: "set (mergePlayerIds ps) = id_p ` set ps - {[]}"
  by (auto simp: mergePlayerIds_def set_newSet)

lemma distinct_mergePlayerIds: "distinct (mergePlayerIds ps)"
  by (simp add: mergePlayerIds_def distinct_newSet)

lemma set_mergePlayerIds_normalized:
  "set (mergePlayerIds (fst (normalizePlayers ps i))) = id_p ` set (fst (normalizePlayers ps i))"
  using normalizePlayers_clean[of _ ps i] by (auto simp: set_mergePlayerIds)

section \<open>Adding a word\<close>

lemma addWordToSession_tx_alt:
  "addWordToSession_tx snapshot word now =
     (let data = orElse snapshot (docOfState emptySession);
          np = normalizePlayers (orElse (players data) []) (orElse (activePlayerIndex data) 0)
      in data\<lparr>storyWords := Some (orElse (storyWords data) [] @ [trim word]),
               players := Some (fst np),
               playerIds := Some (mergePlayerIds (fst np)),
               activePlayerIndex :=
                 Some (if fst np = [] then 0 else js_rem (snd np + 1) (int (length (fst np)))),
               updatedAt := Some now\<rparr>)"
  by (simp add: addWordToSession_tx_def Let_def split: prod.splits)

text \<open>
  Claim C2, as amended. For every snapshot and every word, \<^verbatim>\<open>addWordToSession\<close> stores
  the document computed by its transaction; that document has \<^verbatim>\<open>word.trim()\<close> appended
  to the stored words and the normalized players. With no normalized player the index
  written is \<open>0\<close>. With \<open>N > 0\<close> normalized players and a normalized current index
  below \<open>2 ^ 53\<close> in magnitude it is the JavaScript remainder \<^verbatim>\<open>(activeIndex + 1) % N\<close>,
  which takes the sign of the dividend; whenever the normalized current index is at
  least \<open>0\<close> it is \<open>(activeIndex + 1) mod N\<close>.
\<close>

theorem addWordToSession_turn:
  "getDoc (addWordToSession st sid word now) sid =
     Some (addWordToSession_tx (getDoc st sid) word now) \<and>
   (let data = orElse snapshot (docOfState emptySession);
        np = normalizePlayers (orElse (players data) []) (orElse (activePlayerIndex data) 0);
        d' = addWordToSession_tx snapshot word now
    in storyWords d' = Some (orElse (storyWords data) [] @ [trim word]) \<and>
       players d' = Some (fst np) \<and>
       (fst np = [] \<longrightarrow> activePlayerIndex d' = Some 0) \<and>
       (fst np \<noteq> [] \<and> \<bar>snd np\<bar> < 2 ^ 53 \<longrightarrow>
          activePlayerIndex d' = Some (js_rem (snd np + 1) (int (length (fst np))))) \<and>
       (fst np \<noteq> [] \<and> 0 \<le> snd np \<longrightarrow>
          activePlayerIndex d' = Some ((snd np + 1) mod int (length (fst np)))))"
proof -
  have "js_rem (i + 1) (int (length xs)) = (i + 1) mod int (length xs)"
    if "xs \<noteq> []" "0 \<le> i" for i :: int and xs :: "Player list"
    using that by (intro js_rem_nonneg) auto
  then show ?thesis
    by (simp add: getDoc_addWordToSession addWordToSession_tx_alt Let_def)
qed

text \<open>The theorem on the scenario of the specification (two players, the second one
  active, one more word: the turn wraps to the first player), on a document whose only
  player has a blank name, and on two players with the stored index \<open>-4\<close>.\<close>

theorem addWordToSession_turn_witness:
  "storyWords (addWordToSession_tx (Some twoPlayers) (js '' dog '') 9) =
     Some [js ''cat'', js ''dog''] \<and>
   fst (normalizePlayers [amy, bob] 1) \<noteq> [] \<and> 0 \<le> snd (normalizePlayers [amy, bob] 1) \<and>
   activePlayerIndex (addWordToSession_tx (Some twoPlayers) (js '' dog '') 9) = Some 0 \<and>
   fst (normalizePlayers [blank] 2) = [] \<and>
   activePlayerIndex (addWordToSession_tx (Some noPlayers) (js ''dog'') 9) = Some 0 \<and>
   fst (normalizePlayers [amy, bob] (- 4)) \<noteq> [] \<and>
   \<bar>snd (normalizePlayers [amy, bob] (- 4))\<bar> < 2 ^ 53 \<and>
   activePlayerIndex (addWordToSession_tx (Some negativeIndex) (js ''cat'') 9) =
     Some (js_rem (- 3) 2) \<and>
   js_rem (- 3) 2 = - 1"
  using addWordToSession_turn [of "[]" "[]" "js '' dog ''" 9 "Some twoPlayers"]
    addWordToSession_turn [of "[]" "[]" "js ''dog''" 9 "Some noPlayers"]
    addWordToSession_turn [of "[]" "[]" "js ''cat''" 9 "Some negativeIndex"]
  by (simp add: Let_def orElse_def twoPlayers_def noPlayers_def negativeIndex_def
      normalizePlayers_def amy_def bob_def blank_def js_eq_iff js_Nil_iff trim_samples
      js_rem_def)

text \<open>
  Claim C2 as the specification states it fails on a stored index below \<open>-1\<close>: with two
  players and the stored index \<open>-4\<close>, the normalized index is \<open>-4\<close> and the index written
  is \<^verbatim>\<open>-3 % 2\<close>, that is \<open>-1\<close>, while \<open>(-4 + 1) mod 2\<close> is \<open>1\<close>.
\<close>

theorem addWordToSession_negative_index:
  "length (fst (normalizePlayers [amy, bob] (- 4))) = 2 \<and>
   snd (normalizePlayers [amy, bob] (- 4)) = - 4 \<and>
   activePlayerIndex (addWordToSession_tx (Some negativeIndex) (js ''cat'') 9) = Some (- 1) \<and>
   (snd (normalizePlayers [amy, bob] (- 4)) + 1) mod
      int (length (fst (normalizePlayers [amy, bob] (- 4)))) = 1"
  by (simp add: addWordToSession_tx_def Let_def orElse_def negativeIndex_def
      normalizePlayers_def amy_def bob_def js_eq_iff js_Nil_iff trim_samples js_rem_def)

section \<open>Adding a player\<close>

lemma addPlayerToSession_tx_alt:
  "addPlayerToSession_tx snapshot p now =
     (let data = orElse snapshot (docOfState emptySession);
          ps0 = orElse (players data) [];
          k = findIndex (\<lambda>q. id_p q = id_p p) ps0;
          np = normalizePlayers (if 0 \<le> k then ps0[nat k := p] else ps0 @ [p])
                 (orElse (activePlayerIndex data) 0)
      in data\<lparr>players := Some (fst np), playerIds := Some (mergePlayerIds (fst np)),
               activePlayerIndex := Some (snd np), updatedAt := Some now\<rparr>)"
  by (simp add: addPlayerToSession_tx_def Let_def split: prod.splits)

lemma findIndex_nonneg_iff: "0 \<le> findIndex P xs \<longleftrightarrow> (\<exists>x\<in>set xs. P x)"
  using findIndex_neg_iff[of P xs] by auto

lemma normalizePlayers_update_clean:
  assumes ok: "\<forall>q\<in>set ps. id_p q \<noteq> [] \<and> name q \<noteq> [] \<and> trim (name q) = name q"
    and p: "id_p p \<noteq> []" "trim (name p) \<noteq> []"
  shows "fst (normalizePlayers (ps[k := p]) i) = ps[k := p\<lparr>name := trim (name p)\<rparr>]"
    and "fst (normalizePlayers (ps @ [p]) i) = ps @ [p\<lparr>name := trim (name p)\<rparr>]"
proof -
  let ?V = "\<lambda>player. id_p player \<noteq> [] \<and> trim (name player) \<noteq> []"
  let ?f = "\<lambda>player. player\<lparr>name := trim (name player)\<rparr>"
  have V: "\<forall>q\<in>set ps. ?V q" using ok by auto
  have f: "map ?f ps = ps" using ok by (simp add: map_idI)
  have "\<forall>q\<in>set (ps[k := p]). ?V q"
    using V p set_update_subset_insert[of ps k p] by auto
  then have "filter ?V (ps[k := p]) = ps[k := p]" by (simp add: filter_id_conv)
  then show "fst (normalizePlayers (ps[k := p]) i) = ps[k := p\<lparr>name := trim (name p)\<rparr>]"
    by (simp add: fst_normalizePlayers map_update f)
  have "filter ?V (ps @ [p]) = ps @ [p]" using V p by (simp add: filter_id_conv)
  then show "fst (normalizePlayers (ps @ [p]) i) = ps @ [p\<lparr>name := trim (name p)\<rparr>]"
    by (simp add: fst_normalizePlayers f)
qed

text \<open>
  Claim C3. For every snapshot and every player \<open>p\<close>, \<^verbatim>\<open>addPlayerToSession\<close> stores the
  document computed by its transaction, which is an upsert keyed by the id of \<open>p\<close> followed
  by normalization: when some stored player has the id of \<open>p\<close>, the first such entry (at
  index \<open>k\<close>) is replaced by \<open>p\<close> at the same position and nothing else moves; otherwise \<open>p\<close>
  is appended at the end. The list is then normalized (names trimmed, invalid players
  dropped, index bounded), so that on a stored list that is already normalized and a valid
  \<open>p\<close> the result is the stored list with the trimmed \<open>p\<close> at position \<open>k\<close>, or at the end.
  Afterward \<^verbatim>\<open>playerIds\<close> has no duplicates and is the set of the ids of the resulting
  players; the words are untouched.
\<close>

theorem addPlayerToSession_upsert:
  "getDoc (addPlayerToSession st sid p now) sid =
     Some (addPlayerToSession_tx (getDoc st sid) p now) \<and>
   (let data = orElse snapshot (docOfState emptySession);
        ps0 = orElse (players data) [];
        i = orElse (activePlayerIndex data) 0;
        k = findIndex (\<lambda>q. id_p q = id_p p) ps0;
        d' = addPlayerToSession_tx snapshot p now
    in ((\<exists>q\<in>set ps0. id_p q = id_p p) \<longrightarrow>
          0 \<le> k \<and> nat k < length ps0 \<and> id_p (ps0 ! nat k) = id_p p \<and>
          (\<forall>j<nat k. id_p (ps0 ! j) \<noteq> id_p p) \<and>
          players d' = Some (fst (normalizePlayers (ps0[nat k := p]) i)) \<and>
          activePlayerIndex d' = Some (snd (normalizePlayers (ps0[nat k := p]) i))) \<and>
       ((\<forall>q\<in>set ps0. id_p q \<noteq> id_p p) \<longrightarrow>
          players d' = Some (fst (normalizePlayers (ps0 @ [p]) i)) \<and>
          activePlayerIndex d' = Some (snd (normalizePlayers (ps0 @ [p]) i))) \<and>
       ((\<forall>q\<in>set ps0. id_p q \<noteq> [] \<and> name q \<noteq> [] \<and> trim (name q) = name q) \<and>
        id_p p \<noteq> [] \<and> trim (name p) \<noteq> [] \<longrightarrow>
          players d' =
            Some (if 0 \<le> k then ps0[nat k := p\<lparr>name := trim (name p)\<rparr>]
                  else ps0 @ [p\<lparr>name := trim (name p)\<rparr>])) \<and>
       (\<exists>ps' ids. players d' = Some ps' \<and> playerIds d' = Some ids \<and> distinct ids \<and>
          set ids = id_p ` set ps') \<and>
       storyWords d' = storyWords data)"
proof -
  define data where "data = orElse snapshot (docOfState emptySession)"
  define ps0 where "ps0 = orElse (players data) []"
  define i where "i = orElse (activePlayerIndex data) 0"
  define k where "k = findIndex (\<lambda>q. id_p q = id_p p) ps0"
  define nxt where "nxt = (if 0 \<le> k then ps0[nat k := p] else ps0 @ [p])"
  define d' where "d' = addPlayerToSession_tx snapshot p now"
  have d': "d' = data\<lparr>players := Some (fst (normalizePlayers nxt i)),
                      playerIds := Some (mergePlayerIds (fst (normalizePlayers nxt i))),
                      activePlayerIndex := Some (snd (normalizePlayers nxt i)),
                      updatedAt := Some now\<rparr>"
    by (simp add: d'_def addPlayerToSession_tx_alt Let_def data_def ps0_def i_def k_def nxt_def)
  have hit: "0 \<le> k \<and> nat k < length ps0 \<and> id_p (ps0 ! nat k) = id_p p \<and>
             (\<forall>j<nat k. id_p (ps0 ! j) \<noteq> id_p p) \<and> nxt = ps0[nat k := p]"
    if "\<exists>q\<in>set ps0. id_p q = id_p p"
  proof -
    from that have k0: "0 \<le> k" by (simp add: k_def findIndex_nonneg_iff)
    moreover have "nat k < length ps0"
      using k0 findIndex_bounds[of "\<lambda>q. id_p q = id_p p" ps0] by (simp add: k_def)
    moreover note findIndex_hit[of "\<lambda>q. id_p q = id_p p" ps0]
    ultimately show ?thesis using k0 by (simp add: k_def nxt_def)
  qed
  have miss: "nxt = ps0 @ [p]" if "\<forall>q\<in>set ps0. id_p q \<noteq> id_p p"
  proof -
    from that have "k < 0" by (simp add: k_def findIndex_neg_iff)
    then show ?thesis by (simp add: nxt_def)
  qed
  have clean: "fst (normalizePlayers nxt i) =
                 (if 0 \<le> k then ps0[nat k := p\<lparr>name := trim (name p)\<rparr>]
                  else ps0 @ [p\<lparr>name := trim (name p)\<rparr>])"
    if "\<forall>q\<in>set ps0. id_p q \<noteq> [] \<and> name q \<noteq> [] \<and> trim (name q) = name q"
      "id_p p \<noteq> []" "trim (name p) \<noteq> []"
    using normalizePlayers_update_clean[OF that] by (simp add: nxt_def)
  have ids: "\<exists>ps' ids. players d' = Some ps' \<and> playerIds d' = Some ids \<and> distinct ids \<and>
          set ids = id_p ` set ps'"
    by (simp add: d' distinct_mergePlayerIds set_mergePlayerIds_normalized)
  have c1: "(\<exists>q\<in>set ps0. id_p q = id_p p) \<longrightarrow>
          0 \<le> k \<and> nat k < length ps0 \<and> id_p (ps0 ! nat k) = id_p p \<and>
          (\<forall>j<nat k. id_p (ps0 ! j) \<noteq> id_p p) \<and>
          players d' = Some (fst (normalizePlayers (ps0[nat k := p]) i)) \<and>
          activePlayerIndex d' = Some (snd (normalizePlayers (ps0[nat k := p]) i))"
    using hit by (simp add: d')
  have c2: "(\<forall>q\<in>set ps0. id_p q \<noteq> id_p p) \<longrightarrow>
          players d' = Some (fst (normalizePlayers (ps0 @ [p]) i)) \<and>
          activePlayerIndex d' = Some (snd (normalizePlayers (ps0 @ [p]) i))"
    using miss by (simp add: d')
  have c3: "(\<forall>q\<in>set ps0. id_p q \<noteq> [] \<and> name q \<noteq> [] \<and> trim (name q) = name q) \<and>
        id_p p \<noteq> [] \<and> trim (name p) \<noteq> [] \<longrightarrow>
          players d' =
            Some (if 0 \<le> k then ps0[nat k := p\<lparr>name := trim (name p)\<rparr>]
                  else ps0 @ [p\<lparr>name := trim (name p)\<rparr>])"
    using clean by (simp add: d')
  have c5: "storyWords d' = storyWords data" by (simp add: d')
  show ?thesis
    unfolding Let_def
    using c1 c2 c3 ids c5 getDoc_addPlayerToSession[of st sid p now]
    unfolding d'_def k_def i_def ps0_def data_def by blast
qed

text \<open>The theorem on a rename (the second of two players is added again under a new
  name) and on a new player added to a list that is already normalized.\<close>

theorem addPlayerToSession_upsert_witness:
  "(\<exists>q\<in>set [amy, bob]. id_p q = id_p rob) \<and>
   players (addPlayerToSession_tx (Some twoPlayers) rob 9) =
     Some [\<lparr>id_p = js ''u1'', name = js ''Amy''\<rparr>, \<lparr>id_p = js ''u2'', name = js ''Rob''\<rparr>] \<and>
   playerIds (addPlayerToSession_tx (Some twoPlayers) rob 9) = Some [js ''u1'', js ''u2''] \<and>
   id_p bob \<noteq> id_p amy \<and>
   id_p bob \<noteq> [] \<and> name bob \<noteq> [] \<and> trim (name bob) = name bob \<and>
   id_p amy \<noteq> [] \<and> trim (name amy) \<noteq> [] \<and>
   players (addPlayerToSession_tx (Some onlyBob) amy 9) =
     Some [bob, \<lparr>id_p = js ''u1'', name = js ''Amy''\<rparr>]"
  using addPlayerToSession_upsert [of "[]" "[]" rob 9 "Some twoPlayers"]
    addPlayerToSession_upsert [of "[]" "[]" amy 9 "Some onlyBob"]
  by (simp add: Let_def orElse_def twoPlayers_def onlyBob_def normalizePlayers_def amy_def
      bob_def rob_def js_eq_iff js_Nil_iff trim_samples addPlayerToSession_tx_def
      mergePlayerIds_def newSet_def)

section \<open>Resetting the story\<close>

lemma mergePlayerIds_Nil: "mergePlayerIds [] = []"
  by (simp add: mergePlayerIds_def newSet_def)


text \<open>
  Claim C5. For every store and session id, after \<^verbatim>\<open>resetSessionStory\<close> the document
  has \<^verbatim>\<open>storyWords = []\<close>, \<^verbatim>\<open>activePlayerIndex = 0\<close> and \<^verbatim>\<open>playerIds\<close> equal to
  \<^verbatim>\<open>mergePlayerIds([])\<close>, the empty list; the \<^verbatim>\<open>players\<close> field is the one stored before
  (missing if there was no document), and no other session changes.
\<close>

theorem resetSessionStory_effect:
  "(\<exists>d'. getDoc (resetSessionStory st sid now) sid = Some d' \<and>
      storyWords d' = Some [] \<and> activePlayerIndex d' = Some 0 \<and>
      playerIds d' = Some (mergePlayerIds []) \<and> mergePlayerIds [] = [] \<and>
      updatedAt d' = Some now \<and>
      players d' = Option.bind (getDoc st sid) players) \<and>
   (\<forall>sid'. sid' \<noteq> sid \<longrightarrow> getDoc (resetSessionStory st sid now) sid' = getDoc st sid')"
  by (cases "getDoc st sid")
    (simp_all add: resetSessionStory_def getDoc_setDocMerge mergeFields_def mergePlayerIds_Nil)

text \<open>The scenario of the specification: two players and five words.\<close>

theorem resetSessionStory_effect_witness:
  "getDoc (resetSessionStory sampleStore (js ''s1'') 9) (js ''s1'') =
     Some \<lparr>players = Some [amy, bob], storyWords = Some [], activePlayerIndex = Some 0,
            playerIds = Some [], updatedAt = Some 9\<rparr> \<and>
   length (the (players fiveWords)) = 2 \<and> length (the (storyWords fiveWords)) = 5 \<and>
   js ''s2'' \<noteq> js ''s1'' \<and>
   getDoc (resetSessionStory sampleStore (js ''s1'') 9) (js ''s2'') = Some noPlayers"
  using resetSessionStory_effect [of sampleStore "js ''s1''" 9]
  by (auto simp: sampleStore_def fiveWords_def getDoc_def js_eq_iff)

text \<open>The two transactions write \<^verbatim>\<open>playerIds\<close> as the set of the ids of the players
  they write, and \<^verbatim>\<open>ensureSessionExists\<close> as the set of the non-empty ids.\<close>

lemma playerIds_after_addPlayer:
  "\<exists>ps ids. players (addPlayerToSession_tx snapshot p now) = Some ps \<and>
     playerIds (addPlayerToSession_tx snapshot p now) = Some ids \<and> set ids = id_p ` set ps"
  by (simp add: addPlayerToSession_tx_alt Let_def set_mergePlayerIds_normalized)

lemma playerIds_after_addWord:
  "\<exists>ps ids. players (addWordToSession_tx snapshot word now) = Some ps \<and>
     playerIds (addWordToSession_tx snapshot word now) = Some ids \<and> set ids = id_p ` set ps"
  by (simp add: addWordToSession_tx_alt Let_def set_mergePlayerIds_normalized)

lemma playerIds_after_ensureSessionExists:
  assumes "getDoc st sid = None"
  shows "\<exists>d' ps ids. getDoc (ensureSessionExists st sid seed now) sid = Some d' \<and>
     players d' = Some ps \<and> playerIds d' = Some ids \<and> set ids = id_p ` set ps - {[]}"
  using assms
  by (simp add: ensureSessionExists_def getDoc_setDoc docOfState_def Let_def
      set_mergePlayerIds)

text \<open>
  Claim C4 says that after every write \<^verbatim>\<open>playerIds\<close> is the set of the ids in \<^verbatim>\<open>players\<close>.
  \<^verbatim>\<open>resetSessionStory\<close> breaks it: on a session with the players \<open>u1\<close> and \<open>u2\<close> it
  writes \<^verbatim>\<open>playerIds = []\<close> and leaves both players in place.
\<close>

theorem resetSessionStory_playerIds_stale:
  "getDoc (resetSessionStory sampleStore (js ''s1'') 9) (js ''s1'') =
     Some \<lparr>players = Some [amy, bob], storyWords = Some [], activePlayerIndex = Some 0,
            playerIds = Some [], updatedAt = Some 9\<rparr> \<and>
   set ([] :: jsstring list) \<noteq> id_p ` set [amy, bob]"
  by (simp add: resetSessionStory_def setDocMerge_def getDoc_def sampleStore_def fiveWords_def
      mergeFields_def mergePlayerIds_Nil js_eq_iff)

section \<open>Creating a session\<close>

text \<open>
  Claim C7. For every store, session id and seed: when the document exists,
  \<^verbatim>\<open>ensureSessionExists\<close> returns the store unchanged; when it does not, the document
  written has the players, words and index of the seed, each replaced by the default of
  the empty session (\<open>[]\<close>, \<open>[]\<close>, \<open>0\<close>) when the seed lacks it, \<^verbatim>\<open>playerIds\<close> derived
  from the players of the seed, and the timestamp; no other session changes.
\<close>

theorem ensureSessionExists_effect:
  "(getDoc st sid \<noteq> None \<longrightarrow> ensureSessionExists st sid seed now = st) \<and>
   (getDoc st sid = None \<longrightarrow>
      getDoc (ensureSessionExists st sid seed now) sid =
        Some \<lparr>players = Some (orElse (Option.bind seed seed_players) []),
               storyWords = Some (orElse (Option.bind seed seed_storyWords) []),
               activePlayerIndex = Some (orElse (Option.bind seed seed_activePlayerIndex) 0),
               playerIds = Some (mergePlayerIds (orElse (Option.bind seed seed_players) [])),
               updatedAt = Some now\<rparr> \<and>
      (\<forall>sid'. sid' \<noteq> sid \<longrightarrow>
         getDoc (ensureSessionExists st sid seed now) sid' = getDoc st sid'))"
  by (cases seed)
    (auto simp: ensureSessionExists_def getDoc_setDoc spreadSeed_def emptySession_def
      docOfState_def orElse_def Let_def split: option.splits)

text \<open>The theorem on an existing session, on a new one with a seed, and on a new one
  without a seed.\<close>

theorem ensureSessionExists_effect_witness:
  "getDoc sampleStore (js ''s1'') \<noteq> None \<and>
   ensureSessionExists sampleStore (js ''s1'') (Some rawSeed) 9 = sampleStore \<and>
   getDoc sampleStore (js ''s3'') = None \<and>
   getDoc (ensureSessionExists sampleStore (js ''s3'') (Some rawSeed) 9) (js ''s3'') =
     Some \<lparr>players = Some [blank, anonymous, amy], storyWords = Some [],
            activePlayerIndex = Some 0, playerIds = Some [js ''u3'', js ''u1''],
            updatedAt = Some 9\<rparr> \<and>
   getDoc (ensureSessionExists sampleStore (js ''s3'') None 9) (js ''s3'') =
     Some \<lparr>players = Some [], storyWords = Some [], activePlayerIndex = Some 0,
            playerIds = Some [], updatedAt = Some 9\<rparr> \<and>
   getDoc (ensureSessionExists sampleStore (js ''s3'') (Some rawSeed) 9) (js ''s1'') =
     Some fiveWords"
  using ensureSessionExists_effect [of sampleStore "js ''s1''" "Some rawSeed" 9]
    ensureSessionExists_effect [of sampleStore "js ''s3''" "Some rawSeed" 9]
    ensureSessionExists_effect [of sampleStore "js ''s3''" None 9]
  by (simp add: sampleStore_def getDoc_def js_eq_iff js_Nil_iff rawSeed_def orElse_def
      mergePlayerIds_def newSet_def blank_def anonymous_def amy_def)

section \<open>What the stored players list holds\<close>




section \<open>Sessions of a user\<close>

lemma v_players_formatSessionDoc:
  "v_players (formatSessionDoc d) =
     fst (normalizePlayers (orElse (players (snd d)) []) (orElse (activePlayerIndex (snd d)) 0))"
  by (simp add: formatSessionDoc_def Let_def split: prod.splits)

text \<open>
  Claim C8. For every store and user id, when the query on \<^verbatim>\<open>playerIds\<close> returns no
  document, \<^verbatim>\<open>getSessionsForUser\<close> returns the formatted documents of the whole
  collection, in its order, whose normalized players list has a player with the id of
  the user, and exactly those; so a document without \<^verbatim>\<open>playerIds\<close> whose normalized
  players include the user is returned.
\<close>

theorem getSessionsForUser_fallback:
  "queryPlayerIds st userId = [] \<longrightarrow>
     getSessionsForUser st userId =
       filter (\<lambda>session. \<exists>player\<in>set (v_players session). id_p player = userId)
         (map formatSessionDoc st) \<and>
     set (getSessionsForUser st userId) =
       formatSessionDoc `
         {d \<in> set st.
            \<exists>player\<in>set (fst (normalizePlayers (orElse (players (snd d)) [])
                             (orElse (activePlayerIndex (snd d)) 0))).
              id_p player = userId} \<and>
     (\<forall>d\<in>set st.
        playerIds (snd d) = None \<and>
        (\<exists>player\<in>set (fst (normalizePlayers (orElse (players (snd d)) [])
                              (orElse (activePlayerIndex (snd d)) 0))).
           id_p player = userId) \<longrightarrow>
        formatSessionDoc d \<in> set (getSessionsForUser st userId))"
proof
  assume miss: "queryPlayerIds st userId = []"
  have eq: "getSessionsForUser st userId =
       filter (\<lambda>session. \<exists>player\<in>set (v_players session). id_p player = userId)
         (map formatSessionDoc st)"
    by (simp add: getSessionsForUser_def miss list_ex_iff)
  show "getSessionsForUser st userId =
       filter (\<lambda>session. \<exists>player\<in>set (v_players session). id_p player = userId)
         (map formatSessionDoc st) \<and>
     set (getSessionsForUser st userId) =
       formatSessionDoc `
         {d \<in> set st.
            \<exists>player\<in>set (fst (normalizePlayers (orElse (players (snd d)) [])
                             (orElse (activePlayerIndex (snd d)) 0))).
              id_p player = userId} \<and>
     (\<forall>d\<in>set st.
        playerIds (snd d) = None \<and>
        (\<exists>player\<in>set (fst (normalizePlayers (orElse (players (snd d)) [])
                              (orElse (activePlayerIndex (snd d)) 0))).
           id_p player = userId) \<longrightarrow>
        formatSessionDoc d \<in> set (getSessionsForUser st userId))"
  proof (intro conjI)
    show "getSessionsForUser st userId =
       filter (\<lambda>session. \<exists>player\<in>set (v_players session). id_p player = userId)
         (map formatSessionDoc st)"
      by (rule eq)
    have "set (filter P (map f st)) = f ` {d \<in> set st. P (f d)}" for P and f :: "_ \<Rightarrow> SessionView"
      by auto
    then show "set (getSessionsForUser st userId) =
       formatSessionDoc `
         {d \<in> set st.
            \<exists>player\<in>set (fst (normalizePlayers (orElse (players (snd d)) [])
                             (orElse (activePlayerIndex (snd d)) 0))).
              id_p player = userId}"
      unfolding eq by (simp add: v_players_formatSessionDoc)
    then show "\<forall>d\<in>set st.
        playerIds (snd d) = None \<and>
        (\<exists>player\<in>set (fst (normalizePlayers (orElse (players (snd d)) [])
                              (orElse (activePlayerIndex (snd d)) 0))).
           id_p player = userId) \<longrightarrow>
        formatSessionDoc d \<in> set (getSessionsForUser st userId)"
      by blast
  qed
qed

text \<open>The theorem on a collection where the only session of user \<open>u1\<close> has no
  \<^verbatim>\<open>playerIds\<close> field.\<close>

theorem getSessionsForUser_fallback_witness:
  "queryPlayerIds legacyStore (js ''u1'') = [] \<and>
   getSessionsForUser legacyStore (js ''u1'') =
     [\<lparr>v_id = js ''s1'',
       v_players = [\<lparr>id_p = js ''u1'', name = js ''Amy''\<rparr>, bob],
       v_storyWords = [js ''cat''], v_activePlayerIndex = 0, v_updatedAt = None\<rparr>] \<and>
   (js ''s1'', legacyDoc) \<in> set legacyStore \<and> playerIds legacyDoc = None \<and>
   formatSessionDoc (js ''s1'', legacyDoc) \<in> set (getSessionsForUser legacyStore (js ''u1''))"
  using getSessionsForUser_fallback [of legacyStore "js ''u1''"]
  by (simp add: queryPlayerIds_def legacyStore_def legacyDoc_def noPlayers_def onlyBob_def
      formatSessionDoc_def normalizePlayers_def orElse_def Let_def amy_def bob_def blank_def
      js_eq_iff js_Nil_iff trim_samples)

section \<open>The two versions of the module\<close>

lemma mergeFields_addPlayer_legacy:
  "mergeFields snapshot (addPlayerToSession_tx_legacy snapshot p now) =
     addPlayerToSession_tx_legacy snapshot p now"
  by (rule mergeFields_full)
    (simp add: addPlayerToSession_tx_legacy_def Let_def orElse_def split: prod.splits)

lemma mergeFields_addWord_legacy:
  "mergeFields snapshot (addWordToSession_tx_legacy snapshot w now) =
     addWordToSession_tx_legacy snapshot w now"
  by (rule mergeFields_full)
    (simp add: addWordToSession_tx_legacy_def Let_def orElse_def split: prod.splits)

text \<open>
  Claim C10. For every snapshot and every player or word, the transaction bodies of the
  two versions of the module compute the same document up to \<^verbatim>\<open>playerIds\<close>: the version
  without \<^verbatim>\<open>playerIds\<close> leaves that field as it was read, and \<^verbatim>\<open>players\<close>, \<^verbatim>\<open>storyWords\<close>
  and \<^verbatim>\<open>activePlayerIndex\<close> agree; in both versions the document stored is the one the
  transaction body computes.
\<close>

theorem legacy_module_agrees:
  "addPlayerToSession_tx_legacy snapshot p now =
     (addPlayerToSession_tx snapshot p now)
       \<lparr>playerIds := playerIds (orElse snapshot (docOfState emptySession))\<rparr> \<and>
   players (addPlayerToSession_tx_legacy snapshot p now) =
     players (addPlayerToSession_tx snapshot p now) \<and>
   storyWords (addPlayerToSession_tx_legacy snapshot p now) =
     storyWords (addPlayerToSession_tx snapshot p now) \<and>
   activePlayerIndex (addPlayerToSession_tx_legacy snapshot p now) =
     activePlayerIndex (addPlayerToSession_tx snapshot p now) \<and>
   addWordToSession_tx_legacy snapshot word now =
     (addWordToSession_tx snapshot word now)
       \<lparr>playerIds := playerIds (orElse snapshot (docOfState emptySession))\<rparr> \<and>
   players (addWordToSession_tx_legacy snapshot word now) =
     players (addWordToSession_tx snapshot word now) \<and>
   storyWords (addWordToSession_tx_legacy snapshot word now) =
     storyWords (addWordToSession_tx snapshot word now) \<and>
   activePlayerIndex (addWordToSession_tx_legacy snapshot word now) =
     activePlayerIndex (addWordToSession_tx snapshot word now) \<and>
   getDoc (addPlayerToSession_legacy st sid p now) sid =
     Some (addPlayerToSession_tx_legacy (getDoc st sid) p now) \<and>
   getDoc (addPlayerToSession st sid p now) sid =
     Some (addPlayerToSession_tx (getDoc st sid) p now) \<and>
   getDoc (addWordToSession_legacy st sid word now) sid =
     Some (addWordToSession_tx_legacy (getDoc st sid) word now) \<and>
   getDoc (addWordToSession st sid word now) sid =
     Some (addWordToSession_tx (getDoc st sid) word now)"
proof -
  have ap: "addPlayerToSession_tx_legacy snapshot p now =
     (addPlayerToSession_tx snapshot p now)
       \<lparr>playerIds := playerIds (orElse snapshot (docOfState emptySession))\<rparr>"
    by (simp add: addPlayerToSession_tx_legacy_def addPlayerToSession_tx_def Let_def
        split: prod.splits)
  have aw: "addWordToSession_tx_legacy snapshot word now =
     (addWordToSession_tx snapshot word now)
       \<lparr>playerIds := playerIds (orElse snapshot (docOfState emptySession))\<rparr>"
    by (simp add: addWordToSession_tx_legacy_def addWordToSession_tx_def Let_def
        split: prod.splits)
  have s1: "getDoc (addPlayerToSession_legacy st sid p now) sid =
     Some (addPlayerToSession_tx_legacy (getDoc st sid) p now)"
    by (simp add: addPlayerToSession_legacy_def getDoc_setDocMerge mergeFields_addPlayer_legacy)
  have s2: "getDoc (addWordToSession_legacy st sid word now) sid =
     Some (addWordToSession_tx_legacy (getDoc st sid) word now)"
    by (simp add: addWordToSession_legacy_def getDoc_setDocMerge mergeFields_addWord_legacy)
  show ?thesis
    unfolding ap aw using s1 s2
    by (simp add: getDoc_addPlayerToSession getDoc_addWordToSession ap aw)
qed

text \<open>The theorem on a rename in a document without \<^verbatim>\<open>playerIds\<close>.\<close>

theorem legacy_module_agrees_witness:
  "addPlayerToSession_tx_legacy (Some legacyDoc) rob 9 =
     \<lparr>players = Some [\<lparr>id_p = js ''u1'', name = js ''Amy''\<rparr>,
                      \<lparr>id_p = js ''u2'', name = js ''Rob''\<rparr>],
      storyWords = Some [js ''cat''], activePlayerIndex = Some 0, playerIds = None,
      updatedAt = Some 9\<rparr> \<and>
   addPlayerToSession_tx (Some legacyDoc) rob 9 =
     \<lparr>players = Some [\<lparr>id_p = js ''u1'', name = js ''Amy''\<rparr>,
                      \<lparr>id_p = js ''u2'', name = js ''Rob''\<rparr>],
      storyWords = Some [js ''cat''], activePlayerIndex = Some 0,
      playerIds = Some [js ''u1'', js ''u2''], updatedAt = Some 9\<rparr>"
  using legacy_module_agrees [of "Some legacyDoc" rob 9 "js ''dog''" "[]" "[]"]
  by (simp add: addPlayerToSession_tx_def legacyDoc_def orElse_def Let_def
      normalizePlayers_def mergePlayerIds_def newSet_def amy_def bob_def rob_def
      js_eq_iff js_Nil_iff trim_samples)

end
